theory Spec2Isabelle
  imports Main "HOL-Library.Sublist" "HOL-Library.AList" "HOL-Library.Multiset"
begin

section \<open>JavaScript strings\<close>

text \<open>
  A TypeScript string is modelled as a \<open>string\<close> (a list of \<open>char\<close>), one \<open>char\<close> per
  code unit. The model covers the code units \<open>0x00\<close> to \<open>0xFF\<close>.
  \<open>String.prototype.trim\<close> removes white space and line terminators
  from both ends: in this range they are tab, line feed, vertical tab, form feed,
  carriage return, space and the no-break space \<open>0xA0\<close>.

  \<open>toLowerCase\<close> maps the capital letters of the range to their small letters: \<open>A\<close> to
  \<open>Z\<close>, and \<open>0xC0\<close> to \<open>0xDE\<close> without the multiplication sign \<open>0xD7\<close>, each \<open>0x20\<close>
  below its small letter. \<open>toUpperCase\<close> maps \<open>a\<close> to \<open>z\<close>; it is applied only to the
  text compared with \<open>RESET\<close>, and the upper case of no other letter of the range is a
  letter of that word.
\<close>

definition isWhiteSpace :: "char \<Rightarrow> bool" where
  "isWhiteSpace c =
     ((9 \<le> (of_char c :: nat) \<and> (of_char c :: nat) \<le> 13)
      \<or> (of_char c :: nat) = 32 \<or> (of_char c :: nat) = 160)"

definition trim :: "string \<Rightarrow> string" where
  "trim s = rev (dropWhile isWhiteSpace (rev (dropWhile isWhiteSpace s)))"

definition isUpper :: "char \<Rightarrow> bool" where
  "isUpper c = (65 \<le> (of_char c :: nat) \<and> (of_char c :: nat) \<le> 90)"

definition isLower :: "char \<Rightarrow> bool" where
  "isLower c = (97 \<le> (of_char c :: nat) \<and> (of_char c :: nat) \<le> 122)"

definition isDigit :: "char \<Rightarrow> bool" where
  "isDigit c = (48 \<le> (of_char c :: nat) \<and> (of_char c :: nat) \<le> 57)"

definition toUpperCase :: "string \<Rightarrow> string" where
  "toUpperCase s = map (\<lambda>c. if isLower c then char_of (of_char c - (32::nat)) else c) s"



text \<open>\<open>s.startsWith(p)\<close> is \<open>prefix p s\<close> and \<open>s.endsWith(p)\<close> is \<open>suffix p s\<close>.\<close>

text \<open>
  A thrown value. \<open>JsError m\<close> is an \<open>Error\<close> object with message \<open>m\<close>;
  \<open>JsThrown m\<close> is any other thrown value, \<open>m\<close> being what \<open>safeStringify\<close> prints for it.
  The handlers of the application all read a caught value through
  \<open>e instanceof Error ? e.message : safeStringify(e)\<close>, which is \<open>exn_message\<close>.
\<close>

datatype js_exn = JsError string | JsThrown string

fun exn_message :: "js_exn \<Rightarrow> string" where
  "exn_message (JsError m) = m"
| "exn_message (JsThrown m) = m"


section \<open>MCP server names\<close>

text \<open>
  \<^verbatim>\<open>
  export function validateMcpServerName(name: string): string {
    const trimmed = name.trim();
    if (!trimmed) { throw new Error("server_name is required"); }
    if (trimmed.startsWith("-")) { throw new Error("server_name must not start with '-'"); }
    if (!/^[A-Za-z0-9_-]+$/.test(trimmed)) {
      throw new Error("server_name must be alphanumeric with '-' or '_'");
    }
    return trimmed;
  }
  \<close>
\<close>

text \<open>The character class \<open>[A-Za-z0-9_-]\<close>.\<close>

definition isMcpNameChar :: "char \<Rightarrow> bool" where
  "isMcpNameChar c = (isUpper c \<or> isLower c \<or> isDigit c \<or> c = CHR ''_'' \<or> c = CHR ''-'')"

text \<open>\<open>/^[A-Za-z0-9_-]+$/.test(s)\<close>: one or more characters, all of the class.\<close>

definition matchesMcpName :: "string \<Rightarrow> bool" where
  "matchesMcpName s = (s \<noteq> [] \<and> list_all isMcpNameChar s)"

definition validateMcpServerName :: "string \<Rightarrow> js_exn + string" where
  "validateMcpServerName name =
     (let trimmed = trim name in
      if trimmed = [] then Inl (JsError ''server_name is required'')
      else if prefix ''-'' trimmed then
        Inl (JsError (''server_name must not start with '' @ [CHR 0x27, CHR ''-'', CHR 0x27]))
      else if \<not> matchesMcpName trimmed then
        Inl (JsError (''server_name must be alphanumeric with ''
                       @ [CHR 0x27, CHR ''-'', CHR 0x27] @ '' or '' @ [CHR 0x27, CHR ''_'', CHR 0x27]))
      else Inr trimmed)"

lemma char_range_enum:
  assumes "hi < 256"
  shows "(lo \<le> (of_char c :: nat) \<and> (of_char c :: nat) \<le> hi)
           \<longleftrightarrow> c \<in> set (map char_of [lo..<Suc hi])"
proof
  assume "lo \<le> (of_char c :: nat) \<and> (of_char c :: nat) \<le> hi"
  then have "(of_char c :: nat) \<in> set [lo..<Suc hi]" by auto
  then have "char_of (of_char c :: nat) \<in> char_of ` set [lo..<Suc hi]"
    by (rule imageI)
  then show "c \<in> set (map char_of [lo..<Suc hi])" by simp
next
  assume "c \<in> set (map char_of [lo..<Suc hi])"
  then obtain n :: nat where n: "lo \<le> n" "n \<le> hi" and c: "c = char_of n"
    by auto
  from n assms have "n < 256" by simp
  with c have "of_char c = n" by simp
  with n show "lo \<le> (of_char c :: nat) \<and> (of_char c :: nat) \<le> hi" by simp
qed

lemma isUpper_enum: "isUpper c \<longleftrightarrow> c \<in> set ''ABCDEFGHIJKLMNOPQRSTUVWXYZ''"
proof -
  have "map char_of [65..<Suc 90] = ''ABCDEFGHIJKLMNOPQRSTUVWXYZ''"
    by code_simp
  with char_range_enum [of 90 65 c] show ?thesis
    by (simp add: isUpper_def)
qed

lemma isLower_enum: "isLower c \<longleftrightarrow> c \<in> set ''abcdefghijklmnopqrstuvwxyz''"
proof -
  have "map char_of [97..<Suc 122] = ''abcdefghijklmnopqrstuvwxyz''"
    by code_simp
  with char_range_enum [of 122 97 c] show ?thesis
    by (simp add: isLower_def)
qed

lemma isDigit_enum: "isDigit c \<longleftrightarrow> c \<in> set ''0123456789''"
proof -
  have "map char_of [48..<Suc 57] = ''0123456789''"
    by code_simp
  with char_range_enum [of 57 48 c] show ?thesis
    by (simp add: isDigit_def)
qed

text \<open>
  Claim C9. For every string \<open>name\<close>, \<open>validateMcpServerName name\<close> returns the trimmed
  name exactly when the trimmed name is non-empty, does not start with \<open>-\<close> and consists
  only of ASCII letters, digits, \<open>-\<close> and \<open>_\<close>; in every other case it throws. The
  character class is written out letter by letter, and a returned value is always the
  trimmed name.
\<close>

theorem validateMcpServerName_returns_iff:
  "(validateMcpServerName name = Inr (trim name)
      \<longleftrightarrow> (trim name \<noteq> [] \<and> \<not> prefix ''-'' (trim name)
           \<and> set (trim name) \<subseteq>
               set (''ABCDEFGHIJKLMNOPQRSTUVWXYZ'' @ ''abcdefghijklmnopqrstuvwxyz''
                    @ ''0123456789'' @ ''-_'')))
   \<and> (validateMcpServerName name \<noteq> Inr (trim name)
      \<longleftrightarrow> (\<exists>e. validateMcpServerName name = Inl e))"
proof -
  have cls: "isMcpNameChar c \<longleftrightarrow>
      c \<in> set (''ABCDEFGHIJKLMNOPQRSTUVWXYZ'' @ ''abcdefghijklmnopqrstuvwxyz''
                 @ ''0123456789'' @ ''-_'')" for c
    unfolding isMcpNameChar_def isUpper_enum isLower_enum isDigit_enum
    by (simp only: set_append Un_iff) auto
  have all: "list_all isMcpNameChar s \<longleftrightarrow>
      set s \<subseteq> set (''ABCDEFGHIJKLMNOPQRSTUVWXYZ'' @ ''abcdefghijklmnopqrstuvwxyz''
                 @ ''0123456789'' @ ''-_'')" for s
    unfolding list_all_iff cls by blast
  show ?thesis
    unfolding validateMcpServerName_def Let_def matchesMcpName_def all
    by (cases "trim name = []"; cases "prefix ''-'' (trim name)") auto
qed

theorem validateMcpServerName_returns_iff_witness:
  "validateMcpServerName ''  notion_mcp-2 '' = Inr ''notion_mcp-2''
   \<and> (\<exists>e. validateMcpServerName '' -x'' = Inl e)"
proof -
  have t1: "trim ''  notion_mcp-2 '' = ''notion_mcp-2''" by code_simp
  have t2: "trim '' -x'' = ''-x''" by code_simp
  have "validateMcpServerName ''  notion_mcp-2 '' = Inr (trim ''  notion_mcp-2 '')"
    using validateMcpServerName_returns_iff [of "''  notion_mcp-2 ''"]
    unfolding t1 by simp
  moreover have "validateMcpServerName '' -x'' \<noteq> Inr (trim '' -x'')"
    using validateMcpServerName_returns_iff [of "'' -x''"]
    unfolding t2 by simp
  then have "\<exists>e. validateMcpServerName '' -x'' = Inl e"
    using validateMcpServerName_returns_iff [of "'' -x''"] by blast
  ultimately show ?thesis unfolding t1 by simp
qed


section \<open>Artifact paths\<close>

text \<open>
  \<^verbatim>\<open>
  const resolveArtifactPath = (artifact: ArtifactItem) => {
    const rawPath = artifact.path?.trim();
    if (!rawPath) return null;
    if (/^(?:[a-zA-Z]:[\\/]|~[\\/]|\/)/.test(rawPath)) { return rawPath; }
    const root = props.activeWorkspaceDisplay.path?.trim();
    if (!root) return rawPath;
    const separator = root.includes("\\") ? "\\" : "/";
    const trimmedRoot = root.replace(/[\\/]+$/, "");
    const trimmedPath = rawPath.replace(/^[\\/]+/, "");
    return `${trimmedRoot}${separator}${trimmedPath}`;
  };
  \<close>
  Only the \<open>path\<close> fields of the artifact and of the active workspace are read; both
  may be absent (\<open>?.\<close>), which is \<open>None\<close>. The backslash is \<open>CHR 0x5C\<close>.
\<close>

record ArtifactItem =
  artifact_path :: "string option"

record WorkspaceDisplay =
  workspace_path :: "string option"

text \<open>The class \<open>[\\/]\<close> of the three regular expressions.\<close>

definition isSep :: "char \<Rightarrow> bool" where
  "isSep c = (c = CHR 0x5C \<or> c = CHR ''/'')"

definition isAsciiLetter :: "char \<Rightarrow> bool" where
  "isAsciiLetter c = (isLower c \<or> isUpper c)"

text \<open>
  \<open>/^(?:[a-zA-Z]:[\\/]|~[\\/]|\/)/.test(p)\<close>: a letter, a colon and a separator; or a
  tilde and a separator; or a slash, at the start of \<open>p\<close>.
\<close>

fun isAbsolutePath :: "string \<Rightarrow> bool" where
  "isAbsolutePath (c1 # c2 # c3 # rest) =
     ((isAsciiLetter c1 \<and> c2 = CHR '':'' \<and> isSep c3) \<or> (c1 = CHR ''~'' \<and> isSep c2)
      \<or> c1 = CHR ''/'')"
| "isAbsolutePath [c1, c2] = ((c1 = CHR ''~'' \<and> isSep c2) \<or> c1 = CHR ''/'')"
| "isAbsolutePath [c1] = (c1 = CHR ''/'')"
| "isAbsolutePath [] = False"

text \<open>
  \<open>root.replace(/[\\/]+$/, "")\<close> removes the run of separators that ends the string (the
  leftmost match that reaches the end), and \<open>rawPath.replace(/^[\\/]+/, "")\<close> the run that
  starts it.
\<close>

definition stripTrailingSeps :: "string \<Rightarrow> string" where
  "stripTrailingSeps s = rev (dropWhile isSep (rev s))"

definition stripLeadingSeps :: "string \<Rightarrow> string" where
  "stripLeadingSeps s = dropWhile isSep s"

definition resolveArtifactPath :: "WorkspaceDisplay \<Rightarrow> ArtifactItem \<Rightarrow> string option" where
  "resolveArtifactPath activeWorkspaceDisplay artifact =
     (case map_option trim (artifact_path artifact) of
        None \<Rightarrow> None
      | Some rawPath \<Rightarrow>
          if rawPath = [] then None
          else if isAbsolutePath rawPath then Some rawPath
          else
            (case map_option trim (workspace_path activeWorkspaceDisplay) of
               None \<Rightarrow> Some rawPath
             | Some root \<Rightarrow>
                 if root = [] then Some rawPath
                 else
                   let separator = (if CHR 0x5C \<in> set root then [CHR 0x5C] else ''/'');
                       trimmedRoot = stripTrailingSeps root;
                       trimmedPath = stripLeadingSeps rawPath
                   in Some (trimmedRoot @ separator @ trimmedPath)))"


lemma isAbsolutePath_iff:
  "isAbsolutePath p \<longleftrightarrow>
     ((\<exists>d s. isAsciiLetter d \<and> isSep s \<and> prefix [d, CHR '':'', s] p)
      \<or> (\<exists>s. isSep s \<and> prefix [CHR ''~'', s] p)
      \<or> prefix ''/'' p)"
  by (induction p rule: isAbsolutePath.induct) auto

lemma stripTrailingSeps_decomp:
  "\<exists>seps. s = stripTrailingSeps s @ seps \<and> list_all isSep seps
     \<and> (stripTrailingSeps s = [] \<or> \<not> isSep (last (stripTrailingSeps s)))"
proof -
  let ?r = "rev s"
  have "s = rev (takeWhile isSep ?r @ dropWhile isSep ?r)"
    by (simp only: takeWhile_dropWhile_id rev_rev_ident)
  then have "s = rev (dropWhile isSep ?r) @ rev (takeWhile isSep ?r)"
    by (simp only: rev_append)
  moreover have "list_all isSep (rev (takeWhile isSep ?r))"
    by (simp add: list_all_iff) (meson set_takeWhileD)
  moreover have "dropWhile isSep ?r = [] \<or> \<not> isSep (hd (dropWhile isSep ?r))"
    using hd_dropWhile by blast
  then have "stripTrailingSeps s = [] \<or> \<not> isSep (last (stripTrailingSeps s))"
    by (auto simp: stripTrailingSeps_def last_rev)
  ultimately show ?thesis
    unfolding stripTrailingSeps_def by blast
qed

lemma stripLeadingSeps_decomp:
  "\<exists>seps. s = seps @ stripLeadingSeps s \<and> list_all isSep seps
     \<and> (stripLeadingSeps s = [] \<or> \<not> isSep (hd (stripLeadingSeps s)))"
proof -
  have "s = takeWhile isSep s @ dropWhile isSep s" by simp
  moreover have "list_all isSep (takeWhile isSep s)"
    by (simp add: list_all_iff) (meson set_takeWhileD)
  moreover have "dropWhile isSep s = [] \<or> \<not> isSep (hd (dropWhile isSep s))"
    using hd_dropWhile by blast
  ultimately show ?thesis
    unfolding stripLeadingSeps_def by blast
qed

text \<open>
  Claim C8. With \<open>p\<close> the trimmed path of the artifact and \<open>r\<close> the trimmed root of the
  active workspace (both empty when absent), \<open>resolveArtifactPath\<close> returns null when \<open>p\<close>
  is empty; returns \<open>p\<close> unchanged when it is absolute (it starts with a drive letter and
  colon followed by a slash or backslash, with a tilde followed by a slash or backslash, or
  with a slash); returns \<open>p\<close> unchanged when \<open>r\<close> is blank; and otherwise returns the root
  without its trailing separators, then one separator (a backslash when the root contains
  a backslash, a slash otherwise), then the path without its leading separators.
\<close>

theorem resolveArtifactPath_cases:
  fixes w :: WorkspaceDisplay and a :: ArtifactItem
  shows
  "(let p = (case artifact_path a of None \<Rightarrow> [] | Some s \<Rightarrow> trim s);
        r = (case workspace_path w of None \<Rightarrow> [] | Some s \<Rightarrow> trim s);
        absolute =
          ((\<exists>d s. d \<in> set (''abcdefghijklmnopqrstuvwxyz'' @ ''ABCDEFGHIJKLMNOPQRSTUVWXYZ'')
                  \<and> s \<in> {CHR ''/'', CHR 0x5C} \<and> prefix [d, CHR '':'', s] p)
           \<or> (\<exists>s. s \<in> {CHR ''/'', CHR 0x5C} \<and> prefix [CHR ''~'', s] p)
           \<or> prefix ''/'' p)
    in (p = [] \<longrightarrow> resolveArtifactPath w a = None)
     \<and> (p \<noteq> [] \<and> absolute \<longrightarrow> resolveArtifactPath w a = Some p)
     \<and> (p \<noteq> [] \<and> \<not> absolute \<and> r = [] \<longrightarrow> resolveArtifactPath w a = Some p)
     \<and> (p \<noteq> [] \<and> \<not> absolute \<and> r \<noteq> [] \<longrightarrow>
          (\<exists>r0 rseps pseps p0.
              r = r0 @ rseps \<and> set rseps \<subseteq> {CHR ''/'', CHR 0x5C}
            \<and> (r0 = [] \<or> last r0 \<notin> {CHR ''/'', CHR 0x5C})
            \<and> p = pseps @ p0 \<and> set pseps \<subseteq> {CHR ''/'', CHR 0x5C}
            \<and> (p0 = [] \<or> hd p0 \<notin> {CHR ''/'', CHR 0x5C})
            \<and> resolveArtifactPath w a =
                Some (r0 @ (if CHR 0x5C \<in> set r then [CHR 0x5C] else ''/'') @ p0))))"
proof -
  define p where "p = (case artifact_path a of None \<Rightarrow> [] | Some s \<Rightarrow> trim s)"
  define r where "r = (case workspace_path w of None \<Rightarrow> [] | Some s \<Rightarrow> trim s)"
  have sep: "isSep c \<longleftrightarrow> c \<in> {CHR ''/'', CHR 0x5C}" for c
    by (auto simp: isSep_def)
  have letter: "isAsciiLetter c \<longleftrightarrow>
      c \<in> set (''abcdefghijklmnopqrstuvwxyz'' @ ''ABCDEFGHIJKLMNOPQRSTUVWXYZ'')" for c
    unfolding isAsciiLetter_def isLower_enum isUpper_enum by (simp only: set_append Un_iff)
  have seps: "list_all isSep cs \<longleftrightarrow> set cs \<subseteq> {CHR ''/'', CHR 0x5C}" for cs
    unfolding list_all_iff sep by blast
  have abs: "isAbsolutePath p \<longleftrightarrow>
          ((\<exists>d s. d \<in> set (''abcdefghijklmnopqrstuvwxyz'' @ ''ABCDEFGHIJKLMNOPQRSTUVWXYZ'')
                  \<and> s \<in> {CHR ''/'', CHR 0x5C} \<and> prefix [d, CHR '':'', s] p)
           \<or> (\<exists>s. s \<in> {CHR ''/'', CHR 0x5C} \<and> prefix [CHR ''~'', s] p)
           \<or> prefix ''/'' p)"
    unfolding isAbsolutePath_iff letter sep ..
  have c1: "p = [] \<Longrightarrow> resolveArtifactPath w a = None"
    by (auto simp: resolveArtifactPath_def p_def split: option.splits)
  have c2: "p \<noteq> [] \<Longrightarrow> isAbsolutePath p \<Longrightarrow> resolveArtifactPath w a = Some p"
    by (auto simp: resolveArtifactPath_def p_def split: option.splits)
  have c3: "p \<noteq> [] \<Longrightarrow> \<not> isAbsolutePath p \<Longrightarrow> r = [] \<Longrightarrow> resolveArtifactPath w a = Some p"
    by (auto simp: resolveArtifactPath_def p_def r_def split: option.splits)
  have c4: "p \<noteq> [] \<Longrightarrow> \<not> isAbsolutePath p \<Longrightarrow> r \<noteq> [] \<Longrightarrow>
      resolveArtifactPath w a =
        Some (stripTrailingSeps r @ (if CHR 0x5C \<in> set r then [CHR 0x5C] else ''/'')
              @ stripLeadingSeps p)"
    by (auto simp: resolveArtifactPath_def p_def r_def Let_def split: option.splits)
  have c4': "\<exists>r0 rseps pseps p0.
              r = r0 @ rseps \<and> set rseps \<subseteq> {CHR ''/'', CHR 0x5C}
            \<and> (r0 = [] \<or> last r0 \<notin> {CHR ''/'', CHR 0x5C})
            \<and> p = pseps @ p0 \<and> set pseps \<subseteq> {CHR ''/'', CHR 0x5C}
            \<and> (p0 = [] \<or> hd p0 \<notin> {CHR ''/'', CHR 0x5C})
            \<and> resolveArtifactPath w a =
                Some (r0 @ (if CHR 0x5C \<in> set r then [CHR 0x5C] else ''/'') @ p0)"
    if "p \<noteq> []" "\<not> isAbsolutePath p" "r \<noteq> []"
  proof -
    obtain rseps where rs: "r = stripTrailingSeps r @ rseps" "list_all isSep rseps"
        "stripTrailingSeps r = [] \<or> \<not> isSep (last (stripTrailingSeps r))"
      using stripTrailingSeps_decomp [of r] by blast
    obtain pseps where ps: "p = pseps @ stripLeadingSeps p" "list_all isSep pseps"
        "stripLeadingSeps p = [] \<or> \<not> isSep (hd (stripLeadingSeps p))"
      using stripLeadingSeps_decomp [of p] by blast
    show ?thesis
      apply (rule exI [of _ "stripTrailingSeps r"])
      apply (rule exI [of _ rseps])
      apply (rule exI [of _ pseps])
      apply (rule exI [of _ "stripLeadingSeps p"])
      using rs ps c4 [OF that] unfolding seps sep by blast
  qed
  show ?thesis
    unfolding Let_def p_def [symmetric] r_def [symmetric] abs [symmetric]
    using c1 c2 c3 c4' by blast
qed

theorem resolveArtifactPath_cases_witness:
  "resolveArtifactPath \<lparr>workspace_path = Some ''/ws''\<rparr> \<lparr>artifact_path = Some '' /etc/hosts ''\<rparr>
     = Some ''/etc/hosts''
   \<and> (\<exists>r0 rseps pseps p0.
          ''/home/u/ws//'' = r0 @ rseps \<and> set rseps \<subseteq> {CHR ''/'', CHR 0x5C}
        \<and> (r0 = [] \<or> last r0 \<notin> {CHR ''/'', CHR 0x5C})
        \<and> ''out/a.md'' = pseps @ p0 \<and> set pseps \<subseteq> {CHR ''/'', CHR 0x5C}
        \<and> (p0 = [] \<or> hd p0 \<notin> {CHR ''/'', CHR 0x5C})
        \<and> resolveArtifactPath \<lparr>workspace_path = Some ''/home/u/ws// ''\<rparr>
              \<lparr>artifact_path = Some ''out/a.md''\<rparr> = Some (r0 @ ''/'' @ p0))"
proof -
  have t1: "trim '' /etc/hosts '' = ''/etc/hosts''" by code_simp
  have t2: "trim ''/home/u/ws// '' = ''/home/u/ws//''" by code_simp
  have t3: "trim ''out/a.md'' = ''out/a.md''" by code_simp
  have a: "resolveArtifactPath \<lparr>workspace_path = Some ''/ws''\<rparr>
      \<lparr>artifact_path = Some '' /etc/hosts ''\<rparr> = Some ''/etc/hosts''"
    using resolveArtifactPath_cases
      [of "\<lparr>artifact_path = Some '' /etc/hosts ''\<rparr>" "\<lparr>workspace_path = Some ''/ws''\<rparr>"]
    unfolding Let_def by (simp add: t1)
  have b: "\<exists>r0 rseps pseps p0.
          ''/home/u/ws//'' = r0 @ rseps \<and> set rseps \<subseteq> {CHR ''/'', CHR 0x5C}
        \<and> (r0 = [] \<or> last r0 \<notin> {CHR ''/'', CHR 0x5C})
        \<and> ''out/a.md'' = pseps @ p0 \<and> set pseps \<subseteq> {CHR ''/'', CHR 0x5C}
        \<and> (p0 = [] \<or> hd p0 \<notin> {CHR ''/'', CHR 0x5C})
        \<and> resolveArtifactPath \<lparr>workspace_path = Some ''/home/u/ws// ''\<rparr>
              \<lparr>artifact_path = Some ''out/a.md''\<rparr> = Some (r0 @ ''/'' @ p0)"
    using resolveArtifactPath_cases
      [of "\<lparr>artifact_path = Some ''out/a.md''\<rparr>" "\<lparr>workspace_path = Some ''/home/u/ws// ''\<rparr>"]
    unfolding Let_def by (simp add: t2 t3)
  from a b show ?thesis by (rule conjI)
qed


section \<open>Local storage\<close>

text \<open>
  \<open>window.localStorage\<close> is a list of entries, one per key, in the order \<open>Object.keys\<close>
  lists them. \<open>getItem\<close> returns \<open>None\<close> for JavaScript's \<open>null\<close>. The application
  guards every access with \<open>typeof window === "undefined"\<close> and a \<open>try\<close> whose \<open>catch\<close>
  ignores the failure; the model is of the desktop and browser runtimes, where the
  window and its storage exist and these operations do not throw.
\<close>

type_synonym storage = "(string \<times> string) list"

definition getItem :: "storage \<Rightarrow> string \<Rightarrow> string option" where
  "getItem ls k = map_of ls k"

definition setItem :: "string \<Rightarrow> string \<Rightarrow> storage \<Rightarrow> storage" where
  "setItem k v ls = AList.update k v ls"

definition removeItem :: "string \<Rightarrow> storage \<Rightarrow> storage" where
  "removeItem k ls = AList.delete k ls"

definition storage_keys :: "storage \<Rightarrow> string list" where
  "storage_keys ls = map fst ls"

text \<open>
  \<^verbatim>\<open>
  function clearOpenworkLocalStorage() {
    if (typeof window === "undefined") return;
    try {
      const keys = Object.keys(window.localStorage);
      for (const key of keys) {
        if (key.startsWith("openwork.")) { window.localStorage.removeItem(key); }
      }
      // Legacy compatibility key
      window.localStorage.removeItem("openwork_mode_pref");
    } catch { /* ignore */ }
  }
  \<close>
  The loop runs over the keys read before the first removal.
\<close>

definition clearOpenworkLocalStorage :: "storage \<Rightarrow> storage" where
  "clearOpenworkLocalStorage ls =
     (let keys = storage_keys ls;
          ls1 = fold (\<lambda>key st. if prefix ''openwork.'' key then removeItem key st else st) keys ls
      in removeItem ''openwork_mode_pref'' ls1)"

lemma getItem_setItem:
  "getItem (setItem k v ls) k' = (if k' = k then Some v else getItem ls k')"
  by (simp add: getItem_def setItem_def AList.update_conv')


lemma removeItem_filter: "removeItem k ls = filter (\<lambda>(k', v). k' \<noteq> k) ls"
  by (auto simp: removeItem_def AList.delete_eq intro: filter_cong)

lemma fold_remove_filter:
  "fold (\<lambda>key st. if P key then removeItem key st else st) ks ls
     = filter (\<lambda>(k, v). \<not> (P k \<and> k \<in> set ks)) ls"
proof (induction ks arbitrary: ls)
  case Nil
  show ?case by simp
next
  case (Cons key ks)
  show ?case
    by (auto simp: Cons.IH removeItem_filter intro: filter_cong)
qed

lemma getItem_filter_keys:
  "getItem (filter (\<lambda>(k, v). Q k) ls) k = (if Q k then getItem ls k else None)"
  unfolding getItem_def
  by (induction ls) auto

text \<open>
  Claim C10. \<open>clearOpenworkLocalStorage\<close> removes exactly the entries whose keys start
  with \<open>openwork.\<close> and the entry of the legacy key \<open>openwork_mode_pref\<close>: what is left is
  the list of the other entries, each with its key and value, in their order; a lookup
  of a removed key gives null and a lookup of any other key gives what it gave before.
\<close>

theorem clearOpenworkLocalStorage_exact:
  "clearOpenworkLocalStorage ls
     = filter (\<lambda>(k, v). \<not> (prefix ''openwork.'' k \<or> k = ''openwork_mode_pref'')) ls
   \<and> getItem (clearOpenworkLocalStorage ls) key
     = (if prefix ''openwork.'' key \<or> key = ''openwork_mode_pref'' then None
        else getItem ls key)"
proof -
  have "fold (\<lambda>key st. if prefix ''openwork.'' key then removeItem key st else st)
          (storage_keys ls) ls
        = filter (\<lambda>(k, v). \<not> prefix ''openwork.'' k) ls"
    unfolding fold_remove_filter storage_keys_def
    by (rule filter_cong) force+
  then have eq: "clearOpenworkLocalStorage ls
     = filter (\<lambda>(k, v). \<not> (prefix ''openwork.'' k \<or> k = ''openwork_mode_pref'')) ls"
    unfolding clearOpenworkLocalStorage_def Let_def removeItem_filter
    by (auto intro: filter_cong)
  show ?thesis
    unfolding eq getItem_filter_keys by simp
qed

theorem clearOpenworkLocalStorage_exact_witness:
  "clearOpenworkLocalStorage
     [(''openwork.baseUrl'', ''http://h''), (''theme'', ''dark''),
      (''openwork_mode_pref'', ''host''), (''openworkX'', ''1'')]
   = [(''theme'', ''dark''), (''openworkX'', ''1'')]"
  using clearOpenworkLocalStorage_exact
    [of "[(''openwork.baseUrl'', ''http://h''), (''theme'', ''dark''),
          (''openwork_mode_pref'', ''host''), (''openworkX'', ''1'')]" "''theme''"]
  by simp


section \<open>Resetting OpenWork\<close>

text \<open>
  \<^verbatim>\<open>
  function anyActiveRuns() {
    const statuses = sessionStatusById();
    return sessions().some((s) => statuses[s.id] === "running" || statuses[s.id] === "retry");
  }

  async function confirmReset() {
    if (resetModalBusy()) return;
    if (anyActiveRuns()) { setError("Stop active runs before resetting."); return; }
    if (resetModalText().trim().toUpperCase() !== "RESET") return;
    setResetModalBusy(true);
    setError(null);
    try {
      if (isTauriRuntime()) { await resetOpenworkState(resetModalMode()); }
      clearOpenworkLocalStorage();
      if (isTauriRuntime()) { await relaunch(); } else { window.location.reload(); }
    } catch (e) {
      setError(e instanceof Error ? e.message : safeStringify(e));
      setResetModalBusy(false);
    }
  }
  \<close>
  The state lists the signals these functions read or write, the local storage, and the
  calls made to the outside: the native reset, the relaunch and the page reload, each
  recorded when it is called. The environment gives the runtime and the outcome of the two
  native calls (\<open>None\<close> when the promise resolves, the thrown value otherwise).
\<close>

datatype reset_effect = NativeReset string | Relaunch | Reload

record reset_state =
  resetModalBusy :: bool
  resetModalText :: string
  resetModalMode :: string
  reset_error :: "string option"
  reset_sessions :: "string list"
  sessionStatusById :: "string \<rightharpoonup> string"
  localStorage :: storage
  performed :: "reset_effect list"

record reset_env =
  isTauriRuntime :: bool
  resetOpenworkState :: "string \<Rightarrow> js_exn option"
  relaunch :: "js_exn option"

text \<open>\<open>reset_sessions\<close> holds the \<open>id\<close> of each session of \<open>sessions()\<close>, in order.\<close>

definition anyActiveRuns :: "reset_state \<Rightarrow> bool" where
  "anyActiveRuns s =
     list_ex (\<lambda>sid. sessionStatusById s sid = Some ''running''
                   \<or> sessionStatusById s sid = Some ''retry'') (reset_sessions s)"

text \<open>The \<open>catch\<close> block of \<open>confirmReset\<close>.\<close>

definition confirmReset_catch :: "js_exn \<Rightarrow> reset_state \<Rightarrow> reset_state" where
  "confirmReset_catch e s = s\<lparr>reset_error := Some (exn_message e), resetModalBusy := False\<rparr>"

definition confirmReset :: "reset_env \<Rightarrow> reset_state \<Rightarrow> reset_state" where
  "confirmReset env s =
     (if resetModalBusy s then s
      else if anyActiveRuns s then s\<lparr>reset_error := Some ''Stop active runs before resetting.''\<rparr>
      else if toUpperCase (trim (resetModalText s)) \<noteq> ''RESET'' then s
      else
        let s1 = s\<lparr>resetModalBusy := True, reset_error := None\<rparr> in
        if isTauriRuntime env then
          (let s2 = s1\<lparr>performed := performed s1 @ [NativeReset (resetModalMode s1)]\<rparr> in
           case resetOpenworkState env (resetModalMode s1) of
             Some e \<Rightarrow> confirmReset_catch e s2
           | None \<Rightarrow>
               let s3 = s2\<lparr>localStorage := clearOpenworkLocalStorage (localStorage s2)\<rparr>;
                   s4 = s3\<lparr>performed := performed s3 @ [Relaunch]\<rparr>
               in (case relaunch env of Some e \<Rightarrow> confirmReset_catch e s4 | None \<Rightarrow> s4))
        else
          (let s3 = s1\<lparr>localStorage := clearOpenworkLocalStorage (localStorage s1)\<rparr>
           in s3\<lparr>performed := performed s3 @ [Reload]\<rparr>))"

text \<open>
  Two concrete states for the theorems below: a browser runtime; a modal that is already
  busy while session \<open>ses_1\<close> is running; and an idle modal whose text is
  \<open>reset\<close> with spaces around it, no session running.
\<close>

definition reset_env0 :: reset_env where
  "reset_env0 = \<lparr>isTauriRuntime = False, resetOpenworkState = (\<lambda>m. None), relaunch = None\<rparr>"

definition reset_busy_running :: reset_state where
  "reset_busy_running =
     \<lparr>resetModalBusy = True, resetModalText = ''RESET'', resetModalMode = ''onboarding'',
      reset_error = None, reset_sessions = [''ses_1''],
      sessionStatusById = [''ses_1'' \<mapsto> ''running''],
      localStorage = [(''openwork.baseUrl'', ''http://127.0.0.1:4096'')], performed = []\<rparr>"

definition reset_idle_confirmed :: reset_state where
  "reset_idle_confirmed =
     \<lparr>resetModalBusy = False, resetModalText = '' reset '', resetModalMode = ''onboarding'',
      reset_error = None, reset_sessions = [''ses_1''],
      sessionStatusById = [''ses_1'' \<mapsto> ''idle''],
      localStorage = [(''openwork.baseUrl'', ''http://127.0.0.1:4096'')], performed = []\<rparr>"

lemma confirmReset_busy: "resetModalBusy s \<Longrightarrow> confirmReset env s = s"
  by (simp add: confirmReset_def)

lemma confirmReset_active:
  "\<not> resetModalBusy s \<Longrightarrow> anyActiveRuns s \<Longrightarrow>
     confirmReset env s = s\<lparr>reset_error := Some ''Stop active runs before resetting.''\<rparr>"
  by (simp add: confirmReset_def)

lemma confirmReset_text:
  "\<not> resetModalBusy s \<Longrightarrow> \<not> anyActiveRuns s \<Longrightarrow>
     toUpperCase (trim (resetModalText s)) \<noteq> ''RESET'' \<Longrightarrow> confirmReset env s = s"
  by (simp add: confirmReset_def)

lemma confirmReset_web:
  "\<not> resetModalBusy s \<Longrightarrow> \<not> anyActiveRuns s \<Longrightarrow>
     toUpperCase (trim (resetModalText s)) = ''RESET'' \<Longrightarrow> \<not> isTauriRuntime env \<Longrightarrow>
     confirmReset env s =
       s\<lparr>resetModalBusy := True, reset_error := None,
         localStorage := clearOpenworkLocalStorage (localStorage s),
         performed := performed s @ [Reload]\<rparr>"
  by (simp add: confirmReset_def Let_def)

lemma confirmReset_desktop:
  "\<not> resetModalBusy s \<Longrightarrow> \<not> anyActiveRuns s \<Longrightarrow>
     toUpperCase (trim (resetModalText s)) = ''RESET'' \<Longrightarrow> isTauriRuntime env \<Longrightarrow>
     resetOpenworkState env (resetModalMode s) = None \<Longrightarrow> relaunch env = None \<Longrightarrow>
     confirmReset env s =
       s\<lparr>resetModalBusy := True, reset_error := None,
         localStorage := clearOpenworkLocalStorage (localStorage s),
         performed := performed s @ [NativeReset (resetModalMode s), Relaunch]\<rparr>"
  by (simp add: confirmReset_def Let_def)

lemma anyActiveRuns_iff:
  "anyActiveRuns s \<longleftrightarrow>
     (\<exists>sid \<in> set (reset_sessions s). sessionStatusById s sid \<in> {Some ''running'', Some ''retry''})"
  by (auto simp: anyActiveRuns_def list_ex_iff)

text \<open>
  Claim C4, as stated, says that whenever active runs exist \<open>confirmReset\<close> sets the error
  message. The check of \<open>resetModalBusy\<close> comes first: with the modal busy and a session
  running, the function returns at once and the error is not set.
\<close>

theorem confirmReset_sets_error_counterexample:
  "anyActiveRuns reset_busy_running
   \<and> reset_error (confirmReset reset_env0 reset_busy_running)
       \<noteq> Some ''Stop active runs before resetting.''"
  by (simp add: confirmReset_def anyActiveRuns_def reset_busy_running_def)

text \<open>
  Claim C4, amended. \<open>confirmReset\<close> clears OpenWork state (calls the native reset, clears
  the local storage, relaunches or reloads) only when the confirmation text, trimmed and
  uppercased, is \<open>RESET\<close>, the modal is not busy and no session has status \<open>running\<close> or
  \<open>retry\<close>; and it does clear then, when the native calls succeed. In every other case it
  returns without clearing anything: when the modal is busy nothing changes; when the modal
  is not busy and active runs exist, only the error message is set; when only the text is
  wrong nothing changes.
\<close>

theorem confirmReset_guarded:
  "(resetModalBusy s \<longrightarrow> confirmReset env s = s)
   \<and> (\<not> resetModalBusy s
        \<and> (\<exists>sid \<in> set (reset_sessions s).
              sessionStatusById s sid \<in> {Some ''running'', Some ''retry''})
      \<longrightarrow> confirmReset env s = s\<lparr>reset_error := Some ''Stop active runs before resetting.''\<rparr>)
   \<and> (\<not> resetModalBusy s
        \<and> (\<forall>sid \<in> set (reset_sessions s).
              sessionStatusById s sid \<notin> {Some ''running'', Some ''retry''})
        \<and> toUpperCase (trim (resetModalText s)) \<noteq> ''RESET''
      \<longrightarrow> confirmReset env s = s)
   \<and> (localStorage (confirmReset env s) \<noteq> localStorage s
        \<or> performed (confirmReset env s) \<noteq> performed s
      \<longrightarrow> toUpperCase (trim (resetModalText s)) = ''RESET''
          \<and> \<not> resetModalBusy s
          \<and> (\<forall>sid \<in> set (reset_sessions s).
                sessionStatusById s sid \<notin> {Some ''running'', Some ''retry''}))
   \<and> (toUpperCase (trim (resetModalText s)) = ''RESET''
        \<and> \<not> resetModalBusy s
        \<and> (\<forall>sid \<in> set (reset_sessions s).
              sessionStatusById s sid \<notin> {Some ''running'', Some ''retry''})
        \<and> (isTauriRuntime env \<longrightarrow>
              resetOpenworkState env (resetModalMode s) = None \<and> relaunch env = None)
      \<longrightarrow> localStorage (confirmReset env s) = clearOpenworkLocalStorage (localStorage s)
          \<and> performed (confirmReset env s)
              = performed s @ (if isTauriRuntime env
                               then [NativeReset (resetModalMode s), Relaunch] else [Reload]))"
proof -
  have act: "anyActiveRuns s \<longleftrightarrow>
     \<not> (\<forall>sid \<in> set (reset_sessions s).
          sessionStatusById s sid \<notin> {Some ''running'', Some ''retry''})"
    unfolding anyActiveRuns_iff by blast
  have only_when: "toUpperCase (trim (resetModalText s)) = ''RESET''
          \<and> \<not> resetModalBusy s \<and> \<not> anyActiveRuns s"
    if "localStorage (confirmReset env s) \<noteq> localStorage s
        \<or> performed (confirmReset env s) \<noteq> performed s"
  proof (rule ccontr)
    assume "\<not> ?thesis"
    then consider "resetModalBusy s" | "\<not> resetModalBusy s" "anyActiveRuns s"
      | "\<not> resetModalBusy s" "\<not> anyActiveRuns s"
        "toUpperCase (trim (resetModalText s)) \<noteq> ''RESET''"
      by blast
    then have "localStorage (confirmReset env s) = localStorage s
        \<and> performed (confirmReset env s) = performed s"
    proof cases
      case 1
      then show ?thesis by (simp add: confirmReset_busy)
    next
      case 2
      then show ?thesis by (simp add: confirmReset_active)
    next
      case 3
      then show ?thesis by (simp add: confirmReset_text)
    qed
    with that show False by blast
  qed
  have clears: "localStorage (confirmReset env s) = clearOpenworkLocalStorage (localStorage s)
          \<and> performed (confirmReset env s)
              = performed s @ (if isTauriRuntime env
                               then [NativeReset (resetModalMode s), Relaunch] else [Reload])"
    if "toUpperCase (trim (resetModalText s)) = ''RESET''" "\<not> resetModalBusy s"
       "\<not> anyActiveRuns s"
       "isTauriRuntime env \<longrightarrow>
              resetOpenworkState env (resetModalMode s) = None \<and> relaunch env = None"
  proof (cases "isTauriRuntime env")
    case True
    with that show ?thesis by (simp add: confirmReset_desktop)
  next
    case False
    with that show ?thesis by (simp add: confirmReset_web)
  qed
  show ?thesis
    using confirmReset_busy [of s env] confirmReset_active [of s env]
      confirmReset_text [of s env] only_when clears
    unfolding act by blast
qed

theorem confirmReset_guarded_witness:
  "confirmReset reset_env0 reset_busy_running = reset_busy_running
   \<and> localStorage (confirmReset reset_env0 reset_idle_confirmed) = []
   \<and> performed (confirmReset reset_env0 reset_idle_confirmed) = [Reload]"
proof -
  have t: "toUpperCase (trim '' reset '') = ''RESET''" by code_simp
  have c: "clearOpenworkLocalStorage [(''openwork.baseUrl'', ''http://127.0.0.1:4096'')] = []"
    by code_simp
  have a: "confirmReset reset_env0 reset_busy_running = reset_busy_running"
    using confirmReset_guarded [of reset_busy_running reset_env0]
    by (simp add: reset_busy_running_def)
  have b: "localStorage (confirmReset reset_env0 reset_idle_confirmed) = []
      \<and> performed (confirmReset reset_env0 reset_idle_confirmed) = [Reload]"
    using confirmReset_guarded [of reset_idle_confirmed reset_env0]
    by (simp add: reset_idle_confirmed_def reset_env0_def t c)
  from a b show ?thesis by simp
qed


section \<open>Permission replies\<close>

text \<open>
  \<^verbatim>\<open>
  async function respondPermissionAndRemember(requestID: string, reply: "once" | "always" | "reject") {
    // Intentional no-op: permission prompts grant session-scoped access only.
    // Persistent workspace roots must be managed explicitly via workspace settings.
    await respondPermission(requestID, reply);
  }
  \<close>
  \<open>respondPermission\<close> belongs to the session store, which is created outside this file; it
  is a parameter here: any function from the request, the reply and the application
  state to the state it leaves, or to the value it rejects with.
\<close>

datatype permission_reply = Once | Always | Reject

definition respondPermissionAndRemember ::
  "(string \<Rightarrow> permission_reply \<Rightarrow> 'st \<Rightarrow> js_exn + 'st)
     \<Rightarrow> string \<Rightarrow> permission_reply \<Rightarrow> 'st \<Rightarrow> js_exn + 'st" where
  "respondPermissionAndRemember respondPermission requestID reply s =
     (case respondPermission requestID reply s of
        Inl e \<Rightarrow> Inl e
      | Inr s' \<Rightarrow> Inr s')"

text \<open>
  Claim C5. For every request id and reply, \<open>respondPermissionAndRemember\<close> does what
  \<open>respondPermission\<close> does and nothing else: from every state it leaves the state that
  \<open>respondPermission\<close> leaves, or rejects with the value \<open>respondPermission\<close> rejects with.
\<close>

theorem respondPermissionAndRemember_is_respondPermission:
  "respondPermissionAndRemember respondPermission requestID reply s
     = respondPermission requestID reply s"
  unfolding respondPermissionAndRemember_def
  by (cases "respondPermission requestID reply s") simp_all


section \<open>Sending a prompt\<close>

text \<open>
  \<^verbatim>\<open>
  const selectedSessionModel = createMemo<ModelRef>(() => {
    const id = selectedSessionId();
    if (!id) return defaultModel();
    const override = sessionModelOverrideById()[id];
    if (override) return override;
    const known = sessionModelById()[id];
    if (known) return known;
    const fromMessages = lastUserModelFromMessages(messages());
    if (fromMessages) return fromMessages;
    return defaultModel();
  });

  async function sendPrompt() {
    const c = client();
    const sessionID = selectedSessionId();
    if (!c || !sessionID) return;
    const content = prompt().trim();
    if (!content) return;
    setBusy(true);
    setBusyLabel("Running");
    setBusyStartedAt(Date.now());
    setError(null);
    try {
      setLastPromptSent(content);
      setPrompt("");
      const model = selectedSessionModel();
      await c.session.promptAsync({
        sessionID, model, variant: modelVariant() ?? undefined,
        parts: [{ type: "text", text: content }],
      });
      setSessionModelById((current) => ({ ...current, [sessionID]: model }));
      setSessionModelOverrideById((current) => {
        if (!current[sessionID]) return current;
        const copy = { ...current };
        delete copy[sessionID];
        return copy;
      });
      await loadSessions(workspaceStore.activeWorkspaceRoot().trim()).catch(() => undefined);
    } catch (e) {
      setError(e instanceof Error ? e.message : safeStringify(e));
    } finally {
      setBusy(false);
      setBusyLabel(null);
      setBusyStartedAt(null);
    }
  }
  \<close>
  The state lists the signals that \<open>sendPrompt\<close> and \<open>selectedSessionModel\<close> read or
  write. \<open>lastUserModel\<close> is the value of \<open>lastUserModelFromMessages(messages())\<close>, a helper
  defined outside this file. The engine call and \<open>loadSessions\<close> (of the session store)
  are parameters: \<open>promptAsync\<close> is given the request and the state of the application
  at the moment of the call, and answers \<open>None\<close> when the promise resolves or the thrown
  value; \<open>loadSessions\<close> is any function on the state (its rejection is caught and
  dropped by \<open>.catch(() => undefined)\<close>). Event handlers that run while the two promises
  are pending are outside the model.
\<close>

record ModelRef =
  providerID :: string
  modelID :: string

record prompt_state =
  client_connected :: bool
  selectedSessionId :: "string option"
  prompt :: string
  lastPromptSent :: string
  busy :: bool
  busyLabel :: "string option"
  busyStartedAt :: "int option"
  prompt_error :: "string option"
  sessionModelById :: "string \<rightharpoonup> ModelRef"
  sessionModelOverrideById :: "string \<rightharpoonup> ModelRef"
  prompt_defaultModel :: ModelRef
  prompt_modelVariant :: "string option"
  lastUserModel :: "ModelRef option"

record prompt_request =
  req_sessionID :: string
  req_model :: ModelRef
  req_variant :: "string option"
  req_text :: string

record prompt_env =
  date_now :: int
  promptAsync :: "prompt_request \<Rightarrow> prompt_state \<Rightarrow> js_exn option"
  loadSessions :: "string \<Rightarrow> prompt_state \<Rightarrow> prompt_state"
  activeWorkspaceRoot :: string

definition selectedSessionModel :: "prompt_state \<Rightarrow> ModelRef" where
  "selectedSessionModel s =
     (case selectedSessionId s of
        None \<Rightarrow> prompt_defaultModel s
      | Some sid \<Rightarrow>
          if sid = [] then prompt_defaultModel s
          else
            (case sessionModelOverrideById s sid of
               Some override \<Rightarrow> override
             | None \<Rightarrow>
                 (case sessionModelById s sid of
                    Some known \<Rightarrow> known
                  | None \<Rightarrow>
                      (case lastUserModel s of
                         Some fromMessages \<Rightarrow> fromMessages
                       | None \<Rightarrow> prompt_defaultModel s))))"

text \<open>
  The two guards: \<open>Some (sessionID, content)\<close> when the client is connected, a session
  id is selected (and is not the empty string, which \<open>!sessionID\<close> rejects too) and the
  trimmed prompt is not empty.
\<close>

definition sendPrompt_guard :: "prompt_state \<Rightarrow> (string \<times> string) option" where
  "sendPrompt_guard s =
     (if \<not> client_connected s then None
      else case selectedSessionId s of
        None \<Rightarrow> None
      | Some sessionID \<Rightarrow>
          if sessionID = [] then None
          else let content = trim (prompt s) in
               if content = [] then None else Some (sessionID, content))"

text \<open>The state when \<open>promptAsync\<close> is called, and the request it is called with.\<close>

definition sendPrompt_begin :: "prompt_env \<Rightarrow> string \<Rightarrow> prompt_state \<Rightarrow> prompt_state" where
  "sendPrompt_begin env content s =
     s\<lparr>busy := True, busyLabel := Some ''Running'', busyStartedAt := Some (date_now env),
       prompt_error := None, lastPromptSent := content, prompt := []\<rparr>"

definition sendPrompt_request :: "string \<Rightarrow> string \<Rightarrow> prompt_state \<Rightarrow> prompt_request" where
  "sendPrompt_request sessionID content s =
     \<lparr>req_sessionID = sessionID, req_model = selectedSessionModel s,
      req_variant = prompt_modelVariant s, req_text = content\<rparr>"

text \<open>The rest of the \<open>try\<close> block after the call resolved, and the \<open>catch\<close> block.\<close>

definition sendPrompt_resolved ::
  "prompt_env \<Rightarrow> string \<Rightarrow> ModelRef \<Rightarrow> prompt_state \<Rightarrow> prompt_state" where
  "sendPrompt_resolved env sessionID model s =
     (let s1 = s\<lparr>sessionModelById := (sessionModelById s)(sessionID \<mapsto> model)\<rparr>;
          s2 = s1\<lparr>sessionModelOverrideById :=
                   (case sessionModelOverrideById s1 sessionID of
                      None \<Rightarrow> sessionModelOverrideById s1
                    | Some _ \<Rightarrow> (sessionModelOverrideById s1)(sessionID := None))\<rparr>
      in loadSessions env (trim (activeWorkspaceRoot env)) s2)"

definition sendPrompt_rejected :: "js_exn \<Rightarrow> prompt_state \<Rightarrow> prompt_state" where
  "sendPrompt_rejected e s = s\<lparr>prompt_error := Some (exn_message e)\<rparr>"

definition sendPrompt_finally :: "prompt_state \<Rightarrow> prompt_state" where
  "sendPrompt_finally s = s\<lparr>busy := False, busyLabel := None, busyStartedAt := None\<rparr>"

text \<open>
  \<open>sendPrompt_trace\<close> lists the states of the run: the state at the \<open>await\<close> of
  \<open>promptAsync\<close> and the state when \<open>sendPrompt\<close> has returned; it is empty when a guard
  returns early. \<open>sendPrompt\<close> is the state the run leaves.
\<close>

definition sendPrompt_trace :: "prompt_env \<Rightarrow> prompt_state \<Rightarrow> prompt_state list" where
  "sendPrompt_trace env s =
     (case sendPrompt_guard s of
        None \<Rightarrow> []
      | Some (sessionID, content) \<Rightarrow>
          let s1 = sendPrompt_begin env content s;
              request = sendPrompt_request sessionID content s1;
              s2 = (case promptAsync env request s1 of
                      None \<Rightarrow> sendPrompt_resolved env sessionID (req_model request) s1
                    | Some e \<Rightarrow> sendPrompt_rejected e s1)
          in [s1, sendPrompt_finally s2])"

definition sendPrompt :: "prompt_env \<Rightarrow> prompt_state \<Rightarrow> prompt_state" where
  "sendPrompt env s = last (s # sendPrompt_trace env s)"

text \<open>A concrete run for the theorem below: the engine rejects the prompt.\<close>

definition prompt_env0 :: prompt_env where
  "prompt_env0 =
     \<lparr>date_now = 1700000000000,
      promptAsync = (\<lambda>request s. Some (JsError ''engine unreachable'')),
      loadSessions = (\<lambda>root s. s),
      activeWorkspaceRoot = ''/home/u/ws''\<rparr>"

definition prompt_state0 :: prompt_state where
  "prompt_state0 =
     \<lparr>client_connected = True, selectedSessionId = Some ''ses_1'', prompt = '' list files '',
      lastPromptSent = [], busy = False, busyLabel = None, busyStartedAt = None,
      prompt_error = None, sessionModelById = Map.empty, sessionModelOverrideById = Map.empty,
      prompt_defaultModel = \<lparr>providerID = ''opencode'', modelID = ''gpt-5-nano''\<rparr>,
      prompt_modelVariant = None, lastUserModel = None\<rparr>"

lemma sendPrompt_guard_Some:
  "client_connected s \<Longrightarrow> selectedSessionId s = Some sessionID \<Longrightarrow> sessionID \<noteq> [] \<Longrightarrow>
     trim (prompt s) \<noteq> [] \<Longrightarrow> sendPrompt_guard s = Some (sessionID, trim (prompt s))"
  by (simp add: sendPrompt_guard_def Let_def)

lemma sendPrompt_guard_None:
  "\<not> client_connected s \<or> selectedSessionId s = None \<or> selectedSessionId s = Some []
     \<or> trim (prompt s) = [] \<Longrightarrow> sendPrompt_guard s = None"
  by (auto simp: sendPrompt_guard_def Let_def split: option.splits)

lemma sendPrompt_finally_busy:
  "\<not> busy (sendPrompt_finally s) \<and> busyLabel (sendPrompt_finally s) = None
     \<and> prompt_error (sendPrompt_finally s) = prompt_error s"
  by (simp add: sendPrompt_finally_def)

text \<open>
  Claim C6. When \<open>sendPrompt\<close> runs with a connected client, a selected session and a
  prompt whose trimmed content is not empty, the state at the moment \<open>promptAsync\<close> is
  called already has the trimmed content as \<open>lastPromptSent\<close>, an empty prompt input,
  \<open>busy\<close> true and the label \<open>Running\<close>; the request carries the session id and the
  trimmed content; when \<open>sendPrompt\<close> has returned, \<open>busy\<close> is false and the label is null,
  whether the call resolved or rejected (a rejection leaves its message as the error). If
  the client is null, no session is selected or the trimmed prompt is empty, nothing
  changes and the engine is not called.
\<close>

theorem sendPrompt_optimistic:
  "(client_connected s \<and> selectedSessionId s = Some sessionID \<and> sessionID \<noteq> []
      \<and> trim (prompt s) \<noteq> []
    \<longrightarrow> (\<exists>atCall after request.
           sendPrompt_trace env s = [atCall, after] \<and> sendPrompt env s = after
         \<and> lastPromptSent atCall = trim (prompt s) \<and> prompt atCall = []
         \<and> busy atCall \<and> busyLabel atCall = Some ''Running''
         \<and> req_sessionID request = sessionID \<and> req_text request = trim (prompt s)
         \<and> (case promptAsync env request atCall of
               None \<Rightarrow>
                 after = sendPrompt_finally
                           (sendPrompt_resolved env sessionID (selectedSessionModel s) atCall)
             | Some e \<Rightarrow>
                 after = atCall\<lparr>prompt_error := Some (exn_message e), busy := False,
                                 busyLabel := None, busyStartedAt := None\<rparr>)
         \<and> \<not> busy after \<and> busyLabel after = None))
   \<and> (\<not> client_connected s \<or> selectedSessionId s = None \<or> selectedSessionId s = Some []
        \<or> trim (prompt s) = []
    \<longrightarrow> sendPrompt env s = s \<and> sendPrompt_trace env s = [])"
proof (intro conjI impI)
  assume "\<not> client_connected s \<or> selectedSessionId s = None \<or> selectedSessionId s = Some []
        \<or> trim (prompt s) = []"
  then have "sendPrompt_guard s = None"
    by (rule sendPrompt_guard_None)
  then show "sendPrompt_trace env s = []" "sendPrompt env s = s"
    by (simp_all add: sendPrompt_def sendPrompt_trace_def)
next
  assume h: "client_connected s \<and> selectedSessionId s = Some sessionID \<and> sessionID \<noteq> []
      \<and> trim (prompt s) \<noteq> []"
  define content where "content = trim (prompt s)"
  define atCall where "atCall = sendPrompt_begin env content s"
  define request where "request = sendPrompt_request sessionID content atCall"
  define settled where "settled =
     (case promptAsync env request atCall of
        None \<Rightarrow> sendPrompt_resolved env sessionID (req_model request) atCall
      | Some e \<Rightarrow> sendPrompt_rejected e atCall)"
  from h have g: "sendPrompt_guard s = Some (sessionID, content)"
    unfolding content_def by (simp add: sendPrompt_guard_Some)
  have tr: "sendPrompt_trace env s = [atCall, sendPrompt_finally settled]"
    unfolding sendPrompt_trace_def g settled_def request_def atCall_def
    by (simp add: Let_def)
  have model: "req_model request = selectedSessionModel s"
    unfolding request_def atCall_def sendPrompt_request_def sendPrompt_begin_def
    by (simp add: selectedSessionModel_def split: option.splits)
  have outcome: "(case promptAsync env request atCall of
               None \<Rightarrow>
                 sendPrompt_finally settled = sendPrompt_finally
                           (sendPrompt_resolved env sessionID (selectedSessionModel s) atCall)
             | Some e \<Rightarrow>
                 sendPrompt_finally settled
                   = atCall\<lparr>prompt_error := Some (exn_message e), busy := False,
                                 busyLabel := None, busyStartedAt := None\<rparr>)"
    unfolding settled_def model
    by (simp add: sendPrompt_finally_def sendPrompt_rejected_def split: option.splits)
  have "sendPrompt_trace env s = [atCall, sendPrompt_finally settled]
         \<and> sendPrompt env s = sendPrompt_finally settled
         \<and> lastPromptSent atCall = trim (prompt s) \<and> prompt atCall = []
         \<and> busy atCall \<and> busyLabel atCall = Some ''Running''
         \<and> req_sessionID request = sessionID \<and> req_text request = trim (prompt s)
         \<and> (case promptAsync env request atCall of
               None \<Rightarrow>
                 sendPrompt_finally settled = sendPrompt_finally
                           (sendPrompt_resolved env sessionID (selectedSessionModel s) atCall)
             | Some e \<Rightarrow>
                 sendPrompt_finally settled
                   = atCall\<lparr>prompt_error := Some (exn_message e), busy := False,
                                 busyLabel := None, busyStartedAt := None\<rparr>)
         \<and> \<not> busy (sendPrompt_finally settled) \<and> busyLabel (sendPrompt_finally settled) = None"
    using tr outcome sendPrompt_finally_busy [of settled]
    by (simp add: sendPrompt_def atCall_def sendPrompt_begin_def request_def
          sendPrompt_request_def content_def)
  then show "\<exists>atCall after request.
           sendPrompt_trace env s = [atCall, after] \<and> sendPrompt env s = after
         \<and> lastPromptSent atCall = trim (prompt s) \<and> prompt atCall = []
         \<and> busy atCall \<and> busyLabel atCall = Some ''Running''
         \<and> req_sessionID request = sessionID \<and> req_text request = trim (prompt s)
         \<and> (case promptAsync env request atCall of
               None \<Rightarrow>
                 after = sendPrompt_finally
                           (sendPrompt_resolved env sessionID (selectedSessionModel s) atCall)
             | Some e \<Rightarrow>
                 after = atCall\<lparr>prompt_error := Some (exn_message e), busy := False,
                                 busyLabel := None, busyStartedAt := None\<rparr>)
         \<and> \<not> busy after \<and> busyLabel after = None"
    by blast
qed

theorem sendPrompt_optimistic_witness:
  "(\<exists>atCall after.
       sendPrompt_trace prompt_env0 prompt_state0 = [atCall, after]
     \<and> sendPrompt prompt_env0 prompt_state0 = after
     \<and> lastPromptSent atCall = ''list files'' \<and> prompt atCall = [] \<and> busy atCall
     \<and> busyLabel atCall = Some ''Running''
     \<and> prompt_error after = Some ''engine unreachable''
     \<and> \<not> busy after \<and> busyLabel after = None)
   \<and> sendPrompt prompt_env0 (prompt_state0\<lparr>prompt := ''   ''\<rparr>)
       = prompt_state0\<lparr>prompt := ''   ''\<rparr>"
proof -
  have t1: "trim '' list files '' = ''list files''" by code_simp
  have t2: "trim ''   '' = []" by code_simp
  have a: "\<exists>atCall after.
       sendPrompt_trace prompt_env0 prompt_state0 = [atCall, after]
     \<and> sendPrompt prompt_env0 prompt_state0 = after
     \<and> lastPromptSent atCall = ''list files'' \<and> prompt atCall = [] \<and> busy atCall
     \<and> busyLabel atCall = Some ''Running''
     \<and> prompt_error after = Some ''engine unreachable''
     \<and> \<not> busy after \<and> busyLabel after = None"
    using sendPrompt_optimistic [of prompt_state0 "''ses_1''" prompt_env0]
    by (auto simp: prompt_state0_def prompt_env0_def t1)
  have b: "sendPrompt prompt_env0 (prompt_state0\<lparr>prompt := ''   ''\<rparr>)
       = prompt_state0\<lparr>prompt := ''   ''\<rparr>"
    using sendPrompt_optimistic [of "prompt_state0\<lparr>prompt := ''   ''\<rparr>" "''ses_1''" prompt_env0]
    by (simp add: t2)
  from a b show ?thesis by (rule conjI)
qed

section \<open>JavaScript values\<close>

text \<open>
  A parsed JSON document, as the template files are read. Numbers are integers here
  (millisecond time stamps); fractions are outside the model. An object is the list of
  its own properties.
\<close>

datatype json =
    JUndefined
  | JNull
  | JBool bool
  | JNum int
  | JStr string
  | JArr "json list"
  | JObj "(string \<times> json) list"


text \<open>\<open>typeof v === "object"\<close> holds of objects, arrays and \<open>null\<close>.\<close>

fun js_typeof_object :: "json \<Rightarrow> bool" where
  "js_typeof_object JNull = True"
| "js_typeof_object (JArr xs) = True"
| "js_typeof_object (JObj fs) = True"
| "js_typeof_object v = False"


section \<open>JavaScript numbers\<close>

text \<open>
  A number of the program is an IEEE 754 double. Every finite double is a whole multiple
  of \<open>2^-1074\<close>, the smallest positive one, so a finite number is kept as that multiple:
  \<open>Finite k\<close> is the number \<open>k * 2^-1074\<close>, and the integer \<open>n\<close> is \<open>Finite (n * 2^1074)\<close>.
  The doubles are the \<open>Finite k\<close> with \<open>|k| = m * 2^e\<close> for some \<open>m < 2^53\<close> and with
  \<open>|k| < 2^2098\<close> (the number \<open>2^1024\<close>). The two zeros are one value: addition,
  comparison and truthiness, which is all the program does with its numbers, do not tell
  them apart.
\<close>

datatype js_number = Finite int | PosInf | NegInf | NaN

text \<open>The number of binary digits of \<open>n\<close>.\<close>

fun bitLength :: "nat \<Rightarrow> nat" where
  "bitLength n = (if n = 0 then 0 else Suc (bitLength (n div 2)))"

declare bitLength.simps [simp del]

text \<open>
  Rounding to 53 significant binary digits, to the nearest and on a tie to the even one:
  \<open>n\<close> is cut into its upper 53 digits \<open>m\<close> and the rest \<open>r\<close>, of which there are
  \<open>bitLength n - 53\<close>.
\<close>

definition roundToDouble :: "nat \<Rightarrow> nat" where
  "roundToDouble n =
     (if n < 2 ^ 53 then n
      else let q = 2 ^ (bitLength n - 53); m = n div q; r = n mod q
           in if 2 * r < q \<or> (2 * r = q \<and> even m) then m * q else (m + 1) * q)"

text \<open>
  The double nearest to \<open>k * 2^-1074\<close>: the size is rounded, and a rounded size of \<open>2^1024\<close>
  or more is an infinity.
\<close>

definition roundFinite :: "int \<Rightarrow> js_number" where
  "roundFinite k =
     (let r = int (roundToDouble (nat \<bar>k\<bar>))
      in if 2 ^ 2098 \<le> r then (if k < 0 then NegInf else PosInf)
         else Finite (if k < 0 then - r else r))"

text \<open>The number value of the integer \<open>n\<close>.\<close>

definition ofInt :: "int \<Rightarrow> js_number" where
  "ofInt n = roundFinite (n * 2 ^ 1074)"

text \<open>\<open>x + y\<close>: the exact sum of two finite numbers, rounded.\<close>

fun js_add :: "js_number \<Rightarrow> js_number \<Rightarrow> js_number" where
  "js_add (Finite a) (Finite b) = roundFinite (a + b)"
| "js_add NaN y = NaN"
| "js_add x NaN = NaN"
| "js_add PosInf NegInf = NaN"
| "js_add NegInf PosInf = NaN"
| "js_add PosInf y = PosInf"
| "js_add x PosInf = PosInf"
| "js_add NegInf y = NegInf"
| "js_add x NegInf = NegInf"



text \<open>Truthiness of a number: all but zero and \<open>NaN\<close>.\<close>

fun number_truthy :: "js_number \<Rightarrow> bool" where
  "number_truthy (Finite k) = (k \<noteq> 0)"
| "number_truthy NaN = False"
| "number_truthy x = True"



























section \<open>Values of type any\<close>

text \<open>
  A value the program receives with the type \<open>any\<close>, as the event of a download is.
  An object is the list of its own data properties (no accessors, no proxies). A
  function, a symbol or a big integer takes no path of the code that a string which is
  not empty does not take, and is left out.
\<close>

datatype js_any =
    AnyUndefined
  | AnyNull
  | AnyBool bool
  | AnyNumber js_number
  | AnyString string
  | AnyArray "js_any list"
  | AnyObject "(string \<times> js_any) list"

text \<open>Truthiness, as \<open>!v\<close> and \<open>v && ...\<close> test it.\<close>

fun any_truthy :: "js_any \<Rightarrow> bool" where
  "any_truthy AnyUndefined = False"
| "any_truthy AnyNull = False"
| "any_truthy (AnyBool b) = b"
| "any_truthy (AnyNumber n) = number_truthy n"
| "any_truthy (AnyString s) = (s \<noteq> [])"
| "any_truthy (AnyArray xs) = True"
| "any_truthy (AnyObject fs) = True"

text \<open>\<open>typeof v === "object"\<close> holds of objects, arrays and \<open>null\<close>.\<close>

fun any_typeof_object :: "js_any \<Rightarrow> bool" where
  "any_typeof_object AnyNull = True"
| "any_typeof_object (AnyArray xs) = True"
| "any_typeof_object (AnyObject fs) = True"
| "any_typeof_object v = False"

text \<open>
  \<open>v.name\<close> for a truthy \<open>v\<close> and one of the property names the callback reads (\<open>event\<close>,
  \<open>data\<close>, \<open>contentLength\<close>, \<open>chunkLength\<close>): the property of an object, \<open>undefined\<close> when
  the object does not have it, and \<open>undefined\<close> on an array, a string, a number or a
  boolean, which have none of these names.
\<close>

fun any_get :: "js_any \<Rightarrow> string \<Rightarrow> js_any" where
  "any_get (AnyObject fs) name = (case map_of fs name of Some v \<Rightarrow> v | None \<Rightarrow> AnyUndefined)"
| "any_get v name = AnyUndefined"


section \<open>Downloading an update\<close>

text \<open>
  \<^verbatim>\<open>
  async function downloadUpdate() {
    const pending = pendingUpdate();
    if (!pending) return;
    setError(null);
    const state = updateStatus();
    const lastCheckedAt = state.state === "available" ? state.lastCheckedAt : Date.now();
    setUpdateStatus({ state: "downloading", lastCheckedAt, version: pending.version,
                      totalBytes: null, downloadedBytes: 0, notes: pending.notes });
    try {
      await pending.update.download((event: any) => {
        if (!event || typeof event !== "object") return;
        const record = event as Record<string, any>;
        setUpdateStatus((current) => {
          if (current.state !== "downloading") return current;
          if (record.event === "Started") {
            const total =
              record.data && typeof record.data.contentLength === "number"
                ? record.data.contentLength : null;
            return { ...current, totalBytes: total };
          }
          if (record.event === "Progress") {
            const chunk =
              record.data && typeof record.data.chunkLength === "number"
                ? record.data.chunkLength : 0;
            return { ...current, downloadedBytes: current.downloadedBytes + chunk };
          }
          return current;
        });
      });
      setUpdateStatus({ state: "ready", lastCheckedAt, version: pending.version,
                        notes: pending.notes });
    } catch (e) {
      const message = e instanceof Error ? e.message : safeStringify(e);
      setUpdateStatus({ state: "error", lastCheckedAt, message });
    }
  }
  \<close>
  The update status is a tagged union on \<open>state\<close>; its shapes are the object literals the
  application passes to \<open>setUpdateStatus\<close>. Its times and byte counts are numbers.
\<close>

datatype update_status =
    Idle "js_number option"
  | Checking js_number
  | Available js_number string "string option" "string option"
  | Downloading js_number string "js_number option" js_number "string option"
  | Ready js_number string "string option"
  | UpdateError "js_number option" string


text \<open>
  \<open>record.data && typeof record.data.<name> === "number" ? record.data.<name> : <otherwise>\<close>,
  with \<open>None\<close> for the other branch.
\<close>

definition numberOfData :: "js_any \<Rightarrow> string \<Rightarrow> js_number option" where
  "numberOfData record name =
     (let d = any_get record ''data'' in
      if any_truthy d then (case any_get d name of AnyNumber n \<Rightarrow> Some n | _ \<Rightarrow> None) else None)"

text \<open>The callback given to \<open>download\<close>, as a function on the update status.\<close>

definition onDownloadEvent :: "js_any \<Rightarrow> update_status \<Rightarrow> update_status" where
  "onDownloadEvent event current =
     (if \<not> any_truthy event \<or> \<not> any_typeof_object event then current
      else case current of
        Downloading t v tot got notes \<Rightarrow>
          if any_get event ''event'' = AnyString ''Started'' then
            Downloading t v (numberOfData event ''contentLength'') got notes
          else if any_get event ''event'' = AnyString ''Progress'' then
            Downloading t v tot
              (js_add got
                 (case numberOfData event ''chunkLength'' of Some chunk \<Rightarrow> chunk | None \<Rightarrow> Finite 0))
              notes
          else current
      | _ \<Rightarrow> current)"

text \<open>
  The pending update: its version, its notes, and what \<open>update.download\<close> does when it
  is called: the events it passes to the callback, in order, and then \<open>None\<close> when its
  promise resolves or the value it rejects with.
\<close>

record pending_update =
  pending_version :: string
  pending_notes :: "string option"
  pending_download :: "js_any list \<times> js_exn option"

record updater_state =
  updateStatus :: update_status
  pendingUpdate :: "pending_update option"
  updater_error :: "string option"



text \<open>The state after the callback has run on each of \<open>events\<close>, in order.\<close>

definition deliverEvents :: "js_any list \<Rightarrow> updater_state \<Rightarrow> updater_state" where
  "deliverEvents events s =
     fold (\<lambda>event st. st\<lparr>updateStatus := onDownloadEvent event (updateStatus st)\<rparr>) events s"




text \<open>The two events of the updater plugin, as the objects the callback receives.\<close>

definition startedEvent :: "js_any \<Rightarrow> js_any" where
  "startedEvent contentLength =
     AnyObject [(''event'', AnyString ''Started''),
                (''data'', AnyObject [(''contentLength'', contentLength)])]"

















lemma deliverEvents_append:
  "deliverEvents (xs @ ys) s = deliverEvents ys (deliverEvents xs s)"
  by (simp add: deliverEvents_def)










lemma onDownloadEvent_startedEvent:
  "onDownloadEvent (startedEvent (AnyNumber n)) (Downloading t v tot got notes)
     = Downloading t v (Some n) got notes"
  by (simp add: onDownloadEvent_def startedEvent_def numberOfData_def)







section \<open>Workspace templates\<close>



























section \<open>Adding a plugin to opencode.json\<close>

text \<open>
  \<^verbatim>\<open>
  function markReloadRequired(reason: ReloadReason) {
    setReloadRequired(true);
    setReloadLastTriggeredAt(Date.now());
    setReloadReasons((current) => (current.includes(reason) ? current : [...current, reason]));
  }

  async function refreshPlugins(scopeOverride?: PluginScope) {
    if (!isTauriRuntime()) {
      setPluginStatus("Plugin management is only available in Host mode.");
      setPluginList([]);
      setSidebarPluginStatus("Plugins are only available in Host mode.");
      setSidebarPluginList([]);
      return;
    }
    const scope = scopeOverride ?? pluginScope();
    const targetDir = options.projectDir().trim();
    if (scope === "project" && !targetDir) {
      setPluginStatus("Pick a project folder to manage project plugins.");
      setPluginList([]);
      setSidebarPluginStatus("Pick a project folder to load active plugins.");
      setSidebarPluginList([]);
      return;
    }
    try {
      setPluginStatus(null);
      setSidebarPluginStatus(null);
      const config = await readOpencodeConfig(scope, targetDir);
      setPluginConfig(config);
      if (!config.exists) {
        setPluginList([]);
        setPluginStatus("No opencode.json found yet. Add a plugin to create one.");
        setSidebarPluginList([]);
        setSidebarPluginStatus("No opencode.json in this workspace yet.");
        return;
      }
      try {
        const next = parsePluginListFromContent(config.content ?? "");
        setSidebarPluginList(next);
      } catch {
        setSidebarPluginList([]);
        setSidebarPluginStatus("Failed to parse opencode.json");
      }
      loadPluginsFromConfig(config);
    } catch (e) {
      setPluginConfig(null);
      setPluginList([]);
      setPluginStatus(e instanceof Error ? e.message : "Failed to load opencode.json");
      setSidebarPluginStatus("Failed to load active plugins.");
      setSidebarPluginList([]);
    }
  }

  async function addPlugin(pluginNameOverride?: string) {
    if (!isTauriRuntime()) {
      setPluginStatus("Plugin management is only available in Host mode.");
      return;
    }
    const pluginName = (pluginNameOverride ?? pluginInput()).trim();
    const isManualInput = pluginNameOverride == null;
    if (!pluginName) {
      if (isManualInput) { setPluginStatus("Enter a plugin package name."); }
      return;
    }
    const scope = pluginScope();
    const targetDir = options.projectDir().trim();
    if (scope === "project" && !targetDir) {
      setPluginStatus("Pick a project folder to manage project plugins.");
      return;
    }
    try {
      setPluginStatus(null);
      const config = await readOpencodeConfig(scope, targetDir);
      const raw = config.content ?? "";
      if (!raw.trim()) {
        const payload = { $schema: "https://opencode.ai/config.json", plugin: [pluginName] };
        await writeOpencodeConfig(scope, targetDir, `${JSON.stringify(payload, null, 2)}\n`);
        options.markReloadRequired("plugins");
        if (isManualInput) { setPluginInput(""); }
        await refreshPlugins(scope);
        return;
      }
      const plugins = parsePluginListFromContent(raw);
      const desired = stripPluginVersion(pluginName).toLowerCase();
      if (plugins.some((entry) => stripPluginVersion(entry).toLowerCase() === desired)) {
        setPluginStatus("Plugin already listed in opencode.json.");
        return;
      }
      const next = [...plugins, pluginName];
      const edits = modify(raw, ["plugin"], next, {
        formattingOptions: { insertSpaces: true, tabSize: 2 },
      });
      const updated = applyEdits(raw, edits);
      await writeOpencodeConfig(scope, targetDir, updated);
      options.markReloadRequired("plugins");
      if (isManualInput) { setPluginInput(""); }
      await refreshPlugins(scope);
    } catch (e) {
      setPluginStatus(e instanceof Error ? e.message : "Failed to update opencode.json");
    }
  }
  \<close>
  The state lists the signals of the extensions store and of the reload banner that these
  functions write, and \<open>config_writes\<close>: the calls of \<open>writeOpencodeConfig\<close> made so far,
  each with its scope, directory and content.

  The environment holds what is defined outside this file. The two commands of the
  desktop shell: \<open>readOpencodeConfig\<close> answers with the configuration file or the value it
  rejects with (its answer may depend on the writes made before), \<open>writeOpencodeConfig\<close>
  with \<open>None\<close> when it resolves. The helpers of \<open>app/plugins\<close>:
  \<open>parsePluginListFromContent\<close>, \<open>stripPluginVersion\<close>, and \<open>loadPluginsFromConfig\<close>, which is
  given the configuration and answers with the plugin list and plugin status it sets. Of
  the \<open>jsonc-parser\<close> library, \<open>jsonc_modify raw next\<close> is the list of edits that
  \<open>modify(raw, ["plugin"], next, ...)\<close> computes, or the value it throws; \<open>applyEdits\<close> is
  written out below.
\<close>

datatype PluginScope = ProjectScope | GlobalScope


















































section \<open>Preferences in local storage\<close>

text \<open>
  \<^verbatim>\<open>
  export const MODEL_PREF_KEY = "openwork.defaultModel";
  export const THINKING_PREF_KEY = "openwork.showThinking";
  export const VARIANT_PREF_KEY = "openwork.modelVariant";
  export const DEFAULT_MODEL: ModelRef = { providerID: "opencode", modelID: "gpt-5-nano" };
  \<close>
\<close>

definition MODEL_PREF_KEY :: string where
  "MODEL_PREF_KEY = ''openwork.defaultModel''"

definition THINKING_PREF_KEY :: string where
  "THINKING_PREF_KEY = ''openwork.showThinking''"

definition VARIANT_PREF_KEY :: string where
  "VARIANT_PREF_KEY = ''openwork.modelVariant''"

definition DEFAULT_MODEL :: ModelRef where
  "DEFAULT_MODEL = \<lparr>providerID = ''opencode'', modelID = ''gpt-5-nano''\<rparr>"

text \<open>
  The preference signals of \<open>App\<close>, next to those of the updater, with the values
  \<open>createSignal\<close> gives them. The first value of \<open>updateAutoCheck\<close> and of \<open>updateStatus\<close> is
  set by \<open>createUpdaterState\<close>, outside this file: they are parameters of the initial
  state.
\<close>

datatype EngineSource = PathSource | SidecarSource


record app_preferences = updater_state +
  baseUrl :: string
  clientDirectory :: string
  engineSource :: EngineSource
  defaultModel :: ModelRef
  showThinking :: bool
  modelVariant :: "string option"
  updateAutoCheck :: bool


text \<open>
  What the preferences code calls and this file does not define. \<open>formatModelRef\<close> and
  \<open>parseModelRef\<close> are helpers of \<open>app/utils\<close>; \<open>parseModelRef\<close> is given what \<open>getItem\<close>
  returned, null included. \<open>numberToString\<close> and \<open>stringToNumber\<close> are \<open>String\<close> and \<open>Number\<close> of
  the language on the numbers and on the texts that the next subsection does not write
  out.
\<close>

record preferences_env =
  formatModelRef :: "ModelRef \<Rightarrow> string"
  parseModelRef :: "string option \<Rightarrow> ModelRef option"
  numberToString :: "js_number \<Rightarrow> string"
  stringToNumber :: "string \<Rightarrow> js_number"

subsection \<open>Numbers and booleans as text\<close>


definition digitValue :: "char \<Rightarrow> nat" where
  "digitValue c = of_char c - 48"





text \<open>
  \<open>Number(s)\<close> on the texts that are, between white space, an integer of at most 20
  decimal digits with an optional sign: the number value of that integer (the nearest
  double; beyond 20 digits the language lets an implementation drop digits). For every
  other text (the empty one, fractions, exponents, the hexadecimal, octal and binary
  forms, \<open>Infinity\<close>, and what is not a number at all) the number is \<open>stringToNumber\<close> of
  the environment.
\<close>

definition decimalValue :: "string \<Rightarrow> nat" where
  "decimalValue ds = foldl (\<lambda>acc c. 10 * acc + digitValue c) 0 ds"

definition isDecimal :: "string \<Rightarrow> bool" where
  "isDecimal ds = (ds \<noteq> [] \<and> list_all isDigit ds \<and> length ds \<le> 20)"

definition js_Number :: "preferences_env \<Rightarrow> string \<Rightarrow> js_number" where
  "js_Number env s =
     (let t = trim s in
      if isDecimal t then ofInt (int (decimalValue t))
      else if t \<noteq> [] \<and> hd t = CHR ''-'' \<and> isDecimal (tl t) then ofInt (- int (decimalValue (tl t)))
      else if t \<noteq> [] \<and> hd t = CHR ''+'' \<and> isDecimal (tl t) then ofInt (int (decimalValue (tl t)))
      else stringToNumber env s)"


definition isJsonSpace :: "char \<Rightarrow> bool" where
  "isJsonSpace c = (c = CHR '' '' \<or> c = CHR 0x09 \<or> c = CHR 0x0A \<or> c = CHR 0x0D)"

definition JSON_parse_bool :: "string \<Rightarrow> bool option" where
  "JSON_parse_bool s =
     (let t = rev (dropWhile isJsonSpace (rev (dropWhile isJsonSpace s))) in
      if t = ''true'' then Some True else if t = ''false'' then Some False else None)"

subsection \<open>The persistence effects\<close>










subsection \<open>Reading the preferences back on mount\<close>

text \<open>
  \<^verbatim>\<open>
  const storedBaseUrl = window.localStorage.getItem("openwork.baseUrl");
  if (storedBaseUrl) { setBaseUrl(storedBaseUrl); }
  const storedClientDir = window.localStorage.getItem("openwork.clientDirectory");
  if (storedClientDir) { setClientDirectory(storedClientDir); }
  const storedEngineSource = window.localStorage.getItem("openwork.engineSource");
  if (storedEngineSource === "path" || storedEngineSource === "sidecar") {
    setEngineSource(storedEngineSource);
  }
  const storedDefaultModel = window.localStorage.getItem(MODEL_PREF_KEY);
  const parsedDefaultModel = parseModelRef(storedDefaultModel);
  if (parsedDefaultModel) {
    setDefaultModel(parsedDefaultModel);
  } else {
    setDefaultModel(DEFAULT_MODEL);
    try { window.localStorage.setItem(MODEL_PREF_KEY, formatModelRef(DEFAULT_MODEL)); } catch {}
  }
  const storedThinking = window.localStorage.getItem(THINKING_PREF_KEY);
  if (storedThinking != null) {
    try {
      const parsed = JSON.parse(storedThinking);
      if (typeof parsed === "boolean") { setShowThinking(parsed); }
    } catch {}
  }
  const storedVariant = window.localStorage.getItem(VARIANT_PREF_KEY);
  if (storedVariant && storedVariant.trim()) { setModelVariant(storedVariant.trim()); }
  const storedUpdateAutoCheck = window.localStorage.getItem("openwork.updateAutoCheck");
  if (storedUpdateAutoCheck === "0" || storedUpdateAutoCheck === "1") {
    setUpdateAutoCheck(storedUpdateAutoCheck === "1");
  }
  const storedUpdateCheckedAt = window.localStorage.getItem("openwork.updateLastCheckedAt");
  if (storedUpdateCheckedAt) {
    const parsed = Number(storedUpdateCheckedAt);
    if (Number.isFinite(parsed) && parsed > 0) {
      setUpdateStatus({ state: "idle", lastCheckedAt: parsed });
    }
  }
  \<close>
\<close>

definition restoreBaseUrl :: "storage \<Rightarrow> app_preferences \<Rightarrow> app_preferences" where
  "restoreBaseUrl ls p =
     (case getItem ls ''openwork.baseUrl'' of
        None \<Rightarrow> p
      | Some storedBaseUrl \<Rightarrow> if storedBaseUrl \<noteq> [] then p\<lparr>baseUrl := storedBaseUrl\<rparr> else p)"

definition restoreClientDirectory :: "storage \<Rightarrow> app_preferences \<Rightarrow> app_preferences" where
  "restoreClientDirectory ls p =
     (case getItem ls ''openwork.clientDirectory'' of
        None \<Rightarrow> p
      | Some storedClientDir \<Rightarrow>
          if storedClientDir \<noteq> [] then p\<lparr>clientDirectory := storedClientDir\<rparr> else p)"

definition restoreEngineSource :: "storage \<Rightarrow> app_preferences \<Rightarrow> app_preferences" where
  "restoreEngineSource ls p =
     (case getItem ls ''openwork.engineSource'' of
        None \<Rightarrow> p
      | Some storedEngineSource \<Rightarrow>
          if storedEngineSource = ''path'' then p\<lparr>engineSource := PathSource\<rparr>
          else if storedEngineSource = ''sidecar'' then p\<lparr>engineSource := SidecarSource\<rparr>
          else p)"

definition restoreDefaultModel ::
  "preferences_env \<Rightarrow> storage \<Rightarrow> app_preferences \<Rightarrow> app_preferences \<times> storage" where
  "restoreDefaultModel env ls p =
     (case parseModelRef env (getItem ls MODEL_PREF_KEY) of
        Some parsedDefaultModel \<Rightarrow> (p\<lparr>defaultModel := parsedDefaultModel\<rparr>, ls)
      | None \<Rightarrow>
          (p\<lparr>defaultModel := DEFAULT_MODEL\<rparr>,
           setItem MODEL_PREF_KEY (formatModelRef env DEFAULT_MODEL) ls))"

definition restoreShowThinking :: "storage \<Rightarrow> app_preferences \<Rightarrow> app_preferences" where
  "restoreShowThinking ls p =
     (case getItem ls THINKING_PREF_KEY of
        None \<Rightarrow> p
      | Some storedThinking \<Rightarrow>
          (case JSON_parse_bool storedThinking of
             None \<Rightarrow> p
           | Some parsed \<Rightarrow> p\<lparr>showThinking := parsed\<rparr>))"

definition restoreModelVariant :: "storage \<Rightarrow> app_preferences \<Rightarrow> app_preferences" where
  "restoreModelVariant ls p =
     (case getItem ls VARIANT_PREF_KEY of
        None \<Rightarrow> p
      | Some storedVariant \<Rightarrow>
          if storedVariant \<noteq> [] \<and> trim storedVariant \<noteq> []
          then p\<lparr>modelVariant := Some (trim storedVariant)\<rparr> else p)"

definition restoreUpdateAutoCheck :: "storage \<Rightarrow> app_preferences \<Rightarrow> app_preferences" where
  "restoreUpdateAutoCheck ls p =
     (case getItem ls ''openwork.updateAutoCheck'' of
        None \<Rightarrow> p
      | Some storedUpdateAutoCheck \<Rightarrow>
          if storedUpdateAutoCheck = ''0'' \<or> storedUpdateAutoCheck = ''1''
          then p\<lparr>updateAutoCheck := (storedUpdateAutoCheck = ''1'')\<rparr> else p)"

definition restoreUpdateLastCheckedAt ::
  "preferences_env \<Rightarrow> storage \<Rightarrow> app_preferences \<Rightarrow> app_preferences" where
  "restoreUpdateLastCheckedAt env ls p =
     (case getItem ls ''openwork.updateLastCheckedAt'' of
        None \<Rightarrow> p
      | Some storedUpdateCheckedAt \<Rightarrow>
          if storedUpdateCheckedAt = [] then p
          else (case js_Number env storedUpdateCheckedAt of
                  Finite parsed \<Rightarrow>
                    if 0 < parsed then p\<lparr>updateStatus := Idle (Some (Finite parsed))\<rparr> else p
                | _ \<Rightarrow> p))"



text \<open>
  \<^verbatim>\<open>
  editModelVariant: () => {
    const next = window.prompt("Model variant ...", modelVariant() ?? "");
    if (next == null) return;
    const trimmed = next.trim();
    setModelVariant(trimmed ? trimmed : null);
  },
  \<close>
  The model variant is set here and on mount, nowhere else. \<open>next\<close> is what the prompt
  returned, \<open>None\<close> when it was cancelled.
\<close>

definition variantOfPrompt :: "string \<Rightarrow> string option" where
  "variantOfPrompt text = (let trimmed = trim text in if trimmed \<noteq> [] then Some trimmed else None)"

definition editModelVariant :: "string option \<Rightarrow> app_preferences \<Rightarrow> app_preferences" where
  "editModelVariant next p =
     (case next of
        None \<Rightarrow> p
      | Some text \<Rightarrow> p\<lparr>modelVariant := variantOfPrompt text\<rparr>)"





subsection \<open>Round trips of the encodings\<close>
























subsection \<open>What the effects leave in the storage\<close>






















subsection \<open>What the mount restores\<close>

lemma restoreBaseUrl_frame [simp]:
  "clientDirectory (restoreBaseUrl ls p) = clientDirectory p"
  "engineSource (restoreBaseUrl ls p) = engineSource p"
  "defaultModel (restoreBaseUrl ls p) = defaultModel p"
  "showThinking (restoreBaseUrl ls p) = showThinking p"
  "modelVariant (restoreBaseUrl ls p) = modelVariant p"
  "updateAutoCheck (restoreBaseUrl ls p) = updateAutoCheck p"
  "updateStatus (restoreBaseUrl ls p) = updateStatus p"
  by (simp_all add: restoreBaseUrl_def split: option.splits)

lemma restoreClientDirectory_frame [simp]:
  "baseUrl (restoreClientDirectory ls p) = baseUrl p"
  "engineSource (restoreClientDirectory ls p) = engineSource p"
  "defaultModel (restoreClientDirectory ls p) = defaultModel p"
  "showThinking (restoreClientDirectory ls p) = showThinking p"
  "modelVariant (restoreClientDirectory ls p) = modelVariant p"
  "updateAutoCheck (restoreClientDirectory ls p) = updateAutoCheck p"
  "updateStatus (restoreClientDirectory ls p) = updateStatus p"
  by (simp_all add: restoreClientDirectory_def split: option.splits)

lemma restoreEngineSource_frame [simp]:
  "baseUrl (restoreEngineSource ls p) = baseUrl p"
  "clientDirectory (restoreEngineSource ls p) = clientDirectory p"
  "defaultModel (restoreEngineSource ls p) = defaultModel p"
  "showThinking (restoreEngineSource ls p) = showThinking p"
  "modelVariant (restoreEngineSource ls p) = modelVariant p"
  "updateAutoCheck (restoreEngineSource ls p) = updateAutoCheck p"
  "updateStatus (restoreEngineSource ls p) = updateStatus p"
  by (simp_all add: restoreEngineSource_def split: option.splits)

lemma restoreShowThinking_frame [simp]:
  "baseUrl (restoreShowThinking ls p) = baseUrl p"
  "clientDirectory (restoreShowThinking ls p) = clientDirectory p"
  "engineSource (restoreShowThinking ls p) = engineSource p"
  "defaultModel (restoreShowThinking ls p) = defaultModel p"
  "modelVariant (restoreShowThinking ls p) = modelVariant p"
  "updateAutoCheck (restoreShowThinking ls p) = updateAutoCheck p"
  "updateStatus (restoreShowThinking ls p) = updateStatus p"
  by (simp_all add: restoreShowThinking_def split: option.splits)

lemma restoreModelVariant_frame [simp]:
  "baseUrl (restoreModelVariant ls p) = baseUrl p"
  "clientDirectory (restoreModelVariant ls p) = clientDirectory p"
  "engineSource (restoreModelVariant ls p) = engineSource p"
  "defaultModel (restoreModelVariant ls p) = defaultModel p"
  "showThinking (restoreModelVariant ls p) = showThinking p"
  "updateAutoCheck (restoreModelVariant ls p) = updateAutoCheck p"
  "updateStatus (restoreModelVariant ls p) = updateStatus p"
  by (simp_all add: restoreModelVariant_def split: option.splits)

lemma restoreUpdateAutoCheck_frame [simp]:
  "baseUrl (restoreUpdateAutoCheck ls p) = baseUrl p"
  "clientDirectory (restoreUpdateAutoCheck ls p) = clientDirectory p"
  "engineSource (restoreUpdateAutoCheck ls p) = engineSource p"
  "defaultModel (restoreUpdateAutoCheck ls p) = defaultModel p"
  "showThinking (restoreUpdateAutoCheck ls p) = showThinking p"
  "modelVariant (restoreUpdateAutoCheck ls p) = modelVariant p"
  "updateStatus (restoreUpdateAutoCheck ls p) = updateStatus p"
  by (simp_all add: restoreUpdateAutoCheck_def split: option.splits)

lemma restoreUpdateLastCheckedAt_frame [simp]:
  "baseUrl (restoreUpdateLastCheckedAt env ls p) = baseUrl p"
  "clientDirectory (restoreUpdateLastCheckedAt env ls p) = clientDirectory p"
  "engineSource (restoreUpdateLastCheckedAt env ls p) = engineSource p"
  "defaultModel (restoreUpdateLastCheckedAt env ls p) = defaultModel p"
  "showThinking (restoreUpdateLastCheckedAt env ls p) = showThinking p"
  "modelVariant (restoreUpdateLastCheckedAt env ls p) = modelVariant p"
  "updateAutoCheck (restoreUpdateLastCheckedAt env ls p) = updateAutoCheck p"
  by (simp_all add: restoreUpdateLastCheckedAt_def split: option.splits js_number.splits)

lemma restoreDefaultModel_frame [simp]:
  "baseUrl (fst (restoreDefaultModel env ls p)) = baseUrl p"
  "clientDirectory (fst (restoreDefaultModel env ls p)) = clientDirectory p"
  "engineSource (fst (restoreDefaultModel env ls p)) = engineSource p"
  "showThinking (fst (restoreDefaultModel env ls p)) = showThinking p"
  "modelVariant (fst (restoreDefaultModel env ls p)) = modelVariant p"
  "updateAutoCheck (fst (restoreDefaultModel env ls p)) = updateAutoCheck p"
  "updateStatus (fst (restoreDefaultModel env ls p)) = updateStatus p"
  "k \<noteq> MODEL_PREF_KEY \<Longrightarrow> getItem (snd (restoreDefaultModel env ls p)) k = getItem ls k"
  by (simp_all add: restoreDefaultModel_def getItem_setItem split: option.splits)















end
